theory Spec2Isabelle
  imports Complex_Main "HOL-Library.Multiset" "HOL-Library.AList"
begin

section \<open>Python values: exceptions, response objects, arrays\<close>

text \<open>
  Exceptions are values. \<open>APIError\<close> stands for whatever
  \<^verbatim>\<open>client.embeddings.create\<close> raises (timeout, 5xx, connection failure, ...).
  The two wrapping constructors are the two \<^verbatim>\<open>raise Exception(f"...")\<close> statements of
  the remote backend; they keep the cause, as the message text does. \<open>NeverReturns\<close> is
  not an exception: it marks a call that blocks forever.
\<close>

datatype error =
    APIError string
  | AttributeError
  | ValueError
  | IndexError
  | KeyError
  | TimeoutError
  | AfterRetries "error option"
  | DeepInfraError error
  | NeverReturns

text \<open>
  What the name \<^verbatim>\<open>response\<close> can be bound to: the client's response object, whose
  \<^verbatim>\<open>.data\<close> lists one embedding per item in the order sent by the service, or a tuple.
  A tuple has no attribute \<^verbatim>\<open>data\<close>.
\<close>

datatype 'a pyobj =
    CreateEmbeddingResponse "'a list list"
  | PyTuple "'a pyobj list"

fun getattr_data :: "'a pyobj \<Rightarrow> error + 'a list list" where
  "getattr_data (CreateEmbeddingResponse d) = Inr d"
| "getattr_data (PyTuple elems) = Inl AttributeError"

text \<open>
  A numpy array of dimension one or two. \<open>Arr2 d rows\<close> has shape
  \<open>(length rows, d)\<close>. The element type is left open: the \<^verbatim>\<open>float32\<close> cast of
  \<^verbatim>\<open>np.array(..., dtype=np.float32)\<close> acts on each element and changes no shape.
\<close>

datatype 'a ndarray = Arr1 "'a list" | Arr2 nat "'a list list"

fun nrows :: "'a ndarray \<Rightarrow> nat" where
  "nrows (Arr1 xs) = length xs"
| "nrows (Arr2 d rows) = length rows"

text \<open>
  \<^verbatim>\<open>np.array([data.embedding for data in response.data], dtype=np.float32)\<close>:
  an empty list gives shape \<open>(0,)\<close>, rows of one length give a matrix, rows of different
  lengths raise \<^verbatim>\<open>ValueError\<close>.
\<close>

definition np_array :: "'a list list \<Rightarrow> error + 'a ndarray" where
  "np_array rows =
     (case rows of
        [] \<Rightarrow> Inr (Arr1 [])
      | r # rs \<Rightarrow>
          if list_all (\<lambda>x. length x = length r) rs then Inr (Arr2 (length r) rows)
          else Inl ValueError)"

text \<open>\<^verbatim>\<open>np.empty((0, 0), dtype=np.float32)\<close>\<close>

definition np_empty_0_0 :: "'a ndarray" where
  "np_empty_0_0 = Arr2 0 []"

text \<open>
  \<^verbatim>\<open>np.vstack\<close>: every array is first made two-dimensional (a one-dimensional array
  of length n becomes one row of length n), then the rows are concatenated; no array at all,
  or arrays of different widths, raise \<^verbatim>\<open>ValueError\<close>.
\<close>

fun atleast_2d :: "'a ndarray \<Rightarrow> nat \<times> 'a list list" where
  "atleast_2d (Arr1 xs) = (length xs, [xs])"
| "atleast_2d (Arr2 d rows) = (d, rows)"

definition vstack :: "'a ndarray list \<Rightarrow> error + 'a ndarray" where
  "vstack arrs =
     (case map atleast_2d arrs of
        [] \<Rightarrow> Inl ValueError
      | m # ms \<Rightarrow>
          if list_all (\<lambda>m'. fst m' = fst m) ms
          then Inr (Arr2 (fst m) (concat (map snd (m # ms))))
          else Inl ValueError)"

text \<open>
  A Python float that is a similarity score: a binary floating point number, hence a
  rational, or NaN.
\<close>

datatype pyfloat = Finite rat | NaN

section \<open>The remote backend\<close>

text \<open>
  The hosted service is outside the program. \<open>api k texts\<close> is what the \<open>k\<close>-th call
  of \<^verbatim>\<open>client.embeddings.create(model=..., input=texts, ...)\<close> made by the process
  does: raise, or answer with the embeddings of \<^verbatim>\<open>response.data\<close>. The world counts
  the calls made and records every \<^verbatim>\<open>asyncio.sleep\<close> delay (in seconds), oldest first.
\<close>

type_synonym 'a api = "nat \<Rightarrow> string list \<Rightarrow> error + 'a list list"

record world =
  api_calls :: nat
  slept :: "rat list"

definition embeddings_create ::
  "'a api \<Rightarrow> string list \<Rightarrow> world \<Rightarrow> (error + 'a list list) \<times> world" where
  "embeddings_create api texts w =
     (api (api_calls w) texts, w\<lparr>api_calls := Suc (api_calls w)\<rparr>)"

definition sleep :: "rat \<Rightarrow> world \<Rightarrow> world" where
  "sleep delay w = w\<lparr>slept := slept w @ [delay]\<rparr>"

text \<open>
  \<^verbatim>\<open>compute_embeddings_deepinfra\<close> (src/app.py 1271-1293). The call statement ends in a
  comma, \<^verbatim>\<open>response = client.embeddings.create(...),\<close> so \<^verbatim>\<open>response\<close> is the
  one-element tuple holding the response object. Every exception of the body is re-raised
  as \<^verbatim>\<open>Exception(f"DeepInfra API error: {str(e)}")\<close>.
\<close>

definition compute_embeddings_deepinfra ::
  "'a api \<Rightarrow> string list \<Rightarrow> world \<Rightarrow> (error + 'a ndarray) \<times> world" where
  "compute_embeddings_deepinfra api texts w =
     (case embeddings_create api texts w of
        (Inl e, w') \<Rightarrow> (Inl (DeepInfraError e), w')
      | (Inr d, w') \<Rightarrow>
          (let response = PyTuple [CreateEmbeddingResponse d] in
           case getattr_data response of
             Inl e \<Rightarrow> (Inl (DeepInfraError e), w')
           | Inr rows \<Rightarrow>
               (case np_array rows of
                  Inl e \<Rightarrow> (Inl (DeepInfraError e), w')
                | Inr embeddings \<Rightarrow> (Inr embeddings, w'))))"

text \<open>
  \<^verbatim>\<open>compute_embeddings_deepinfra_async\<close> (src/app.py 1295-1322). The loop
  \<^verbatim>\<open>for attempt in range(5)\<close> returns from inside at the first attempt whose call and
  array conversion both succeed; every exception of an attempt is kept in
  \<^verbatim>\<open>last_err\<close> and followed by \<^verbatim>\<open>asyncio.sleep(min(4.0, 0.25 * (2 ** attempt)))\<close>.
  The delays 0.25, 0.5, 1, 2, 4 are exact in binary floating point, so rationals model them.
\<close>

definition backoff :: "nat \<Rightarrow> rat" where
  "backoff attempt = min 4 (1 / 4 * 2 ^ attempt)"

fun retry_loop ::
  "'a api \<Rightarrow> string list \<Rightarrow> nat list \<Rightarrow> error option \<Rightarrow> world \<Rightarrow> (error + 'a ndarray) \<times> world"
where
  "retry_loop api texts [] last_err w = (Inl (AfterRetries last_err), w)"
| "retry_loop api texts (attempt # rest) last_err w =
     (case embeddings_create api texts w of
        (Inl e, w') \<Rightarrow> retry_loop api texts rest (Some e) (sleep (backoff attempt) w')
      | (Inr d, w') \<Rightarrow>
          (case np_array d of
             Inl e \<Rightarrow> retry_loop api texts rest (Some e) (sleep (backoff attempt) w')
           | Inr embeddings \<Rightarrow> (Inr embeddings, w')))"

definition compute_embeddings_deepinfra_async ::
  "'a api \<Rightarrow> string list \<Rightarrow> world \<Rightarrow> (error + 'a ndarray) \<times> world" where
  "compute_embeddings_deepinfra_async api texts w =
     (case retry_loop api texts [0..<5] None w of
        (Inl e, w') \<Rightarrow> (Inl (DeepInfraError e), w')
      | (Inr embeddings, w') \<Rightarrow> (Inr embeddings, w'))"

section \<open>The batch scheduler\<close>

text \<open>
  \<^verbatim>\<open>range(0, stop, step)\<close>: a zero step raises \<^verbatim>\<open>ValueError\<close>, a negative step from
  0 gives nothing, a positive step gives 0, step, 2 step, ... below \<open>stop\<close>.
\<close>

definition py_range_step :: "nat \<Rightarrow> int \<Rightarrow> error + nat list" where
  "py_range_step stop step =
     (if step = 0 then Inl ValueError
      else if step < 0 then Inr []
      else Inr (map (\<lambda>k. k * nat step) [0..<(stop + nat step - 1) div nat step]))"

text \<open>\<^verbatim>\<open>_chunk_indices\<close> (src/app.py 1324-1325).\<close>

definition chunk_indices :: "nat \<Rightarrow> int \<Rightarrow> error + (nat \<times> nat) list" where
  "chunk_indices total_n chunk_size =
     (case py_range_step total_n chunk_size of
        Inl e \<Rightarrow> Inl e
      | Inr starts \<Rightarrow> Inr (map (\<lambda>i. (i, min (i + nat chunk_size) total_n)) starts))"

text \<open>\<^verbatim>\<open>texts[start:end]\<close> for indices that are not negative.\<close>

definition py_slice :: "'a list \<Rightarrow> nat \<Rightarrow> nat \<Rightarrow> 'a list" where
  "py_slice xs start stop = drop start (take stop xs)"

text \<open>
  The dictionary \<^verbatim>\<open>results\<close> is an association list in insertion order;
  \<^verbatim>\<open>results[start] = vecs\<close> is \<^const>\<open>AList.update\<close>. Reading \<^verbatim>\<open>results[s]\<close> for
  each key of a list raises \<^verbatim>\<open>KeyError\<close> at a key that is absent.
\<close>

fun lookup_all :: "(nat \<times> 'v) list \<Rightarrow> nat list \<Rightarrow> error + 'v list" where
  "lookup_all d [] = Inr []"
| "lookup_all d (k # ks) =
     (case map_of d k of
        None \<Rightarrow> Inl KeyError
      | Some v \<Rightarrow> (case lookup_all d ks of Inl e \<Rightarrow> Inl e | Inr vs \<Rightarrow> Inr (v # vs)))"

text \<open>
  The last lines of both schedulers: \<^verbatim>\<open>ordered_starts = sorted(results.keys())\<close>, then
  \<^verbatim>\<open>np.vstack([results[s] for s in ordered_starts])\<close>.
\<close>

definition assemble :: "(nat \<times> 'a ndarray) list \<Rightarrow> error + 'a ndarray" where
  "assemble results =
     (let ordered_starts = sort (map fst results) in
      case lookup_all results ordered_starts of
        Inl e \<Rightarrow> Inl e
      | Inr arrs \<Rightarrow> vstack arrs)"

text \<open>
  Batches finish in an order the program does not choose; \<open>as_completed\<close> (and
  \<open>completion\<close> below) rearranges the submitted slices into that order, and the service
  is taken to be asked in that order too.
\<close>

type_synonym 'a backend = "string list \<Rightarrow> world \<Rightarrow> (error + 'a ndarray) \<times> world"

text \<open>
  The thread pool of \<^verbatim>\<open>compute_embeddings_parallel\<close>: every submitted
  \<^verbatim>\<open>_embed_batch_slice\<close> (src/app.py 1327-1330) runs to its end, also when another one
  has raised, because leaving the \<^verbatim>\<open>with ThreadPoolExecutor(...)\<close> block waits for all
  of them. A future holds the start index and the matrix, or the exception.
\<close>

fun run_pool ::
  "'a backend \<Rightarrow> string list \<Rightarrow> (nat \<times> nat) list \<Rightarrow> world
     \<Rightarrow> (nat \<times> (error + 'a ndarray)) list \<times> world"
where
  "run_pool backend texts [] w = ([], w)"
| "run_pool backend texts ((start, stop) # rest) w =
     (case backend (py_slice texts start stop) w of
        (r, w') \<Rightarrow>
          (case run_pool backend texts rest w' of
             (futures, w'') \<Rightarrow> ((start, r) # futures, w'')))"

text \<open>
  The loop \<^verbatim>\<open>for fut in as_completed(futures)\<close> (src/app.py 1355-1357):
  \<^verbatim>\<open>fut.result()\<close> re-raises the exception of a batch that raised, else the matrix is
  stored under the start index.
\<close>

fun collect_results ::
  "(nat \<times> (error + 'a ndarray)) list \<Rightarrow> (nat \<times> 'a ndarray) list \<Rightarrow> error + (nat \<times> 'a ndarray) list"
where
  "collect_results [] results = Inr results"
| "collect_results ((start, Inl e) # rest) results = Inl e"
| "collect_results ((start, Inr vecs) # rest) results =
     collect_results rest (AList.update start vecs results)"

text \<open>
  \<^verbatim>\<open>compute_embeddings_parallel\<close> (src/app.py 1332-1366), whose workers run
  \<^verbatim>\<open>compute_embeddings_deepinfra\<close> on \<^verbatim>\<open>texts[start:end]\<close>.
  \<^verbatim>\<open>ThreadPoolExecutor(max_workers=m)\<close> raises \<^verbatim>\<open>ValueError\<close> for \<open>m \<le> 0\<close>.
\<close>

definition compute_embeddings_parallel ::
  "'a api \<Rightarrow> string list \<Rightarrow> int \<Rightarrow> int \<Rightarrow> ((nat \<times> nat) list \<Rightarrow> (nat \<times> nat) list) \<Rightarrow> world
     \<Rightarrow> (error + 'a ndarray) \<times> world" where
  "compute_embeddings_parallel api texts batch_size max_concurrency as_completed w =
     (let n = length texts in
      if n = 0 then (Inr np_empty_0_0, w)
      else
        case chunk_indices n batch_size of
          Inl e \<Rightarrow> (Inl e, w)
        | Inr slices \<Rightarrow>
            if max_concurrency \<le> 0 then (Inl ValueError, w)
            else
              (case run_pool (compute_embeddings_deepinfra api) texts (as_completed slices) w of
                 (futures, w') \<Rightarrow>
                   (case collect_results futures [] of
                      Inl e \<Rightarrow> (Inl e, w')
                    | Inr results \<Rightarrow> (assemble results, w'))))"

text \<open>
  The workers of \<^verbatim>\<open>compute_embeddings_parallel_async\<close> under \<^verbatim>\<open>asyncio.gather\<close>:
  each completed batch stores its vectors under its start index, and the first batch that
  raises ends the call with its exception. The calls a batch makes to the service (its
  attempts) are taken as one block of the world's history.
\<close>

fun run_batches ::
  "'a backend \<Rightarrow> string list \<Rightarrow> (nat \<times> nat) list \<Rightarrow> (nat \<times> 'a ndarray) list \<Rightarrow> world
     \<Rightarrow> (error + (nat \<times> 'a ndarray) list) \<times> world"
where
  "run_batches backend texts [] results w = (Inr results, w)"
| "run_batches backend texts ((start, stop) # rest) results w =
     (case backend (py_slice texts start stop) w of
        (Inl e, w') \<Rightarrow> (Inl e, w')
      | (Inr vecs, w') \<Rightarrow> run_batches backend texts rest (AList.update start vecs results) w')"

text \<open>
  \<^verbatim>\<open>compute_embeddings_parallel_async\<close> (src/app.py 1368-1399), whose workers await
  \<^verbatim>\<open>compute_embeddings_deepinfra_async\<close> on \<^verbatim>\<open>texts[start:end]\<close> under
  \<^verbatim>\<open>asyncio.Semaphore(max_concurrency)\<close>: a negative value raises \<^verbatim>\<open>ValueError\<close>,
  and with the value 0 no worker ever enters, so \<^verbatim>\<open>gather\<close> never returns when there is
  a worker at all.
\<close>

definition compute_embeddings_parallel_async ::
  "'a api \<Rightarrow> string list \<Rightarrow> int \<Rightarrow> int \<Rightarrow> ((nat \<times> nat) list \<Rightarrow> (nat \<times> nat) list) \<Rightarrow> world
     \<Rightarrow> (error + 'a ndarray) \<times> world" where
  "compute_embeddings_parallel_async api texts batch_size max_concurrency completion w =
     (let n = length texts in
      if n = 0 then (Inr np_empty_0_0, w)
      else
        case chunk_indices n batch_size of
          Inl e \<Rightarrow> (Inl e, w)
        | Inr slices \<Rightarrow>
            if max_concurrency < 0 then (Inl ValueError, w)
            else if max_concurrency = 0 \<and> slices \<noteq> [] then (Inl NeverReturns, w)
            else
              (case run_batches (compute_embeddings_deepinfra_async api) texts (completion slices) [] w of
                 (Inl e, w') \<Rightarrow> (Inl e, w')
               | (Inr results, w') \<Rightarrow> (assemble results, w')))"

section \<open>Text preparation\<close>

text \<open>
  Texts are strings over the code points below 256. \<^verbatim>\<open>str.strip()\<close> and the regular
  expression class \<^verbatim>\<open>\s\<close> use Python's Unicode white space, which below 256 is
  9-13, 28-32, 133 and 160.
\<close>

definition isspace :: "char \<Rightarrow> bool" where
  "isspace c = (of_char c \<in> set [9, 10, 11, 12, 13, 28, 29, 30, 31, 32, 133, 160 :: nat])"

definition strip :: "string \<Rightarrow> string" where
  "strip s = rev (dropWhile isspace (rev (dropWhile isspace s)))"

text \<open>\<^verbatim>\<open>re.sub(r'\s+', ' ', text)\<close>: every maximal run of white space becomes one space.\<close>

function collapse_ws :: "string \<Rightarrow> string" where
  "collapse_ws [] = []"
| "collapse_ws (c # cs) =
     (if isspace c then CHR '' '' # collapse_ws (dropWhile isspace cs)
      else c # collapse_ws cs)"
  by pat_completeness auto
termination
  by (relation "measure length") (auto simp: less_Suc_eq_le length_dropWhile_le)

text \<open>\<^verbatim>\<open>clean_text_for_embedding\<close> (src/app.py 1543-1550).\<close>

definition clean_text_for_embedding :: "string list \<Rightarrow> string list" where
  "clean_text_for_embedding text_list = map (\<lambda>text. collapse_ws (strip text)) text_list"

section \<open>The resilient wrapper\<close>

text \<open>
  The process-wide variables \<^verbatim>\<open>FALLBACK_ACTIVE\<close> and \<^verbatim>\<open>_API_FAILURES\<close>
  (src/app.py 1221-1222) and the two settings read once at start
  (\<^verbatim>\<open>MODEL_FALLBACK_MODE\<close>, \<^verbatim>\<open>API_MAX_FAILURES\<close>, 1216-1217).
\<close>

record resilience =
  FALLBACK_ACTIVE :: bool
  API_FAILURES :: int

record config =
  MODEL_FALLBACK_MODE :: string
  API_MAX_FAILURES :: int

text \<open>
  The two embedding paths the wrapper chooses between, and the similarity routine of the
  worker, are taken as given. \<open>try_api_embeddings\<close> is the awaited
  \<^verbatim>\<open>_try_api_embeddings(texts, api_key, progress_callback)\<close> (1465-1468): the remote
  backend under \<^verbatim>\<open>asyncio.wait_for\<close>, whose clock is outside the model, so it returns the
  matrix or raises (\<^verbatim>\<open>TimeoutError\<close> included). \<open>compute_embeddings_local_async\<close> is the
  awaited call of that name (1440-1462), whose model and weights are outside the program.
  \<open>cosine_similarity\<close> is the library routine of that name. Each path acts on a world
  \<open>'w\<close> of its own choosing, so that a path which is not called leaves no effect.
\<close>

record ('w, 'm) env =
  try_api_embeddings :: "string list \<Rightarrow> 'w \<Rightarrow> (error + 'm) \<times> 'w"
  compute_embeddings_local_async :: "string list \<Rightarrow> 'w \<Rightarrow> (error + 'm) \<times> 'w"
  cosine_similarity :: "'m \<Rightarrow> 'm \<Rightarrow> error + pyfloat list list"

text \<open>
  \<^verbatim>\<open>compute_embeddings_resilient_async\<close> (src/app.py 1470-1531). Notifications and
  progress messages change no value and are left out. The bare \<^verbatim>\<open>raise\<close> re-raises the
  exception of the remote call itself.
\<close>

definition compute_embeddings_resilient_async ::
  "config \<Rightarrow> ('w, 'm) env \<Rightarrow> string list \<Rightarrow> resilience \<Rightarrow> 'w \<Rightarrow> (error + 'm) \<times> resilience \<times> 'w"
where
  "compute_embeddings_resilient_async cfg env texts s w =
     (let mode = MODEL_FALLBACK_MODE cfg in
      if mode = ''local'' then
        (let (r, w') = compute_embeddings_local_async env texts w
         in (r, s\<lparr>FALLBACK_ACTIVE := True\<rparr>, w'))
      else if mode = ''api'' then
        (let (r, w') = try_api_embeddings env texts w
         in (r, s\<lparr>FALLBACK_ACTIVE := False\<rparr>, w'))
      else if mode = ''off'' then
        (let (r, w') = try_api_embeddings env texts w
         in (r, s\<lparr>FALLBACK_ACTIVE := False\<rparr>, w'))
      else if FALLBACK_ACTIVE s then
        (let (r, w') = compute_embeddings_local_async env texts w
         in (r, s, w'))
      else
        (case try_api_embeddings env texts w of
           (Inr vecs, w') \<Rightarrow> (Inr vecs, s\<lparr>API_FAILURES := 0, FALLBACK_ACTIVE := False\<rparr>, w')
         | (Inl e, w') \<Rightarrow>
             (let s' = s\<lparr>API_FAILURES := API_FAILURES s + 1\<rparr> in
              if API_FAILURES s' \<ge> API_MAX_FAILURES cfg then
                (let s'' = s'\<lparr>FALLBACK_ACTIVE := True\<rparr>;
                     (r, w'') = compute_embeddings_local_async env texts w'
                 in (r, s'', w''))
              else (Inl e, s', w'))))"

section \<open>Matching\<close>

text \<open>
  \<^verbatim>\<open>np.argmax(row)\<close>: the first index of a NaN if there is one, else the first index of
  the largest value; an empty row raises \<^verbatim>\<open>ValueError\<close>.
\<close>

fun first_index :: "('a \<Rightarrow> bool) \<Rightarrow> 'a list \<Rightarrow> nat" where
  "first_index P [] = 0"
| "first_index P (x # xs) = (if P x then 0 else Suc (first_index P xs))"

fun finite_val :: "pyfloat \<Rightarrow> rat" where
  "finite_val (Finite q) = q"
| "finite_val NaN = 0"

definition np_argmax :: "pyfloat list \<Rightarrow> error + nat" where
  "np_argmax row =
     (case row of
        [] \<Rightarrow> Inl ValueError
      | x # xs \<Rightarrow>
          if NaN \<in> set row then Inr (first_index (\<lambda>v. v = NaN) row)
          else (let m = fold max (map finite_val xs) (finite_val x)
                in Inr (first_index (\<lambda>v. v = Finite m) row)))"

text \<open>\<^verbatim>\<open>xs[i]\<close> for an index that is not negative.\<close>

definition py_index :: "'a list \<Rightarrow> nat \<Rightarrow> error + 'a" where
  "py_index xs i = (if i < length xs then Inr (xs ! i) else Inl IndexError)"

text \<open>
  The loop of the worker (src/app.py 1722-1727): for every row of the similarity matrix,
  \<^verbatim>\<open>idx = int(np.argmax(row))\<close>, then \<^verbatim>\<open>target_list[idx]\<close> and
  \<^verbatim>\<open>float(row[idx])\<close> are appended to the batch's matches and scores.
\<close>

fun match_rows :: "string list \<Rightarrow> pyfloat list list \<Rightarrow> error + (string list \<times> pyfloat list)" where
  "match_rows target_list [] = Inr ([], [])"
| "match_rows target_list (row # sim) =
     (case np_argmax row of
        Inl e \<Rightarrow> Inl e
      | Inr idx \<Rightarrow>
          (case py_index target_list idx of
             Inl e \<Rightarrow> Inl e
           | Inr label \<Rightarrow>
               (case py_index row idx of
                  Inl e \<Rightarrow> Inl e
                | Inr score \<Rightarrow>
                    (case match_rows target_list sim of
                       Inl e \<Rightarrow> Inl e
                     | Inr (batch_matches, batch_scores) \<Rightarrow>
                         Inr (label # batch_matches, score # batch_scores)))))"

text \<open>
  The final loop (src/app.py 1737-1741): \<^verbatim>\<open>for start in sorted(results_match.keys())\<close>
  extends the matches by \<^verbatim>\<open>results_match[start]\<close> and the scores by
  \<^verbatim>\<open>results_score[start]\<close>.
\<close>

definition extend_sorted :: "(nat \<times> 'v list) list \<Rightarrow> (nat \<times> 'u list) list \<Rightarrow> error + ('v list \<times> 'u list)" where
  "extend_sorted results_match results_score =
     (let starts = sort (map fst results_match) in
      case lookup_all results_match starts of
        Inl e \<Rightarrow> Inl e
      | Inr ms \<Rightarrow>
          (case lookup_all results_score starts of
             Inl e \<Rightarrow> Inl e
           | Inr ss \<Rightarrow> Inr (concat ms, concat ss)))"

section \<open>The workers of a run\<close>

text \<open>
  The workers of \<^verbatim>\<open>run_embed_match_async\<close> (src/app.py 1715-1733) are coroutines run
  by \<^verbatim>\<open>asyncio.gather\<close> on one event loop: a coroutine runs alone from one
  \<^verbatim>\<open>await\<close> that suspends it to the next, and between two of its own steps any other
  worker may take steps. A worker waits for the semaphore, then is suspended in the remote
  call (\<^verbatim>\<open>await _try_api_embeddings\<close>, line 1506, 1491 or 1496) or in the local one
  (\<^verbatim>\<open>await compute_embeddings_local_async\<close>, line 1484, 1503 or 1529), then is done.
\<close>

datatype task = Waiting | AwaitRemote | AwaitLocal | Done

text \<open>
  What the run does that is seen from outside besides its calls: a remote call that returned
  or raised, and the warning of lines 1516-1525 that the process switches to the local model.
\<close>

datatype observation = RemoteReturned | RemoteFailed | FallbackNotice

text \<open>
  \<^verbatim>\<open>compute_embeddings_resilient_async\<close> from its entry to its first \<^verbatim>\<open>await\<close>
  (src/app.py 1477-1506): the mode and the flag decide which call the request is suspended in.
\<close>

definition resilient_begin :: "config \<Rightarrow> resilience \<Rightarrow> task \<times> resilience" where
  "resilient_begin cfg s =
     (let mode = MODEL_FALLBACK_MODE cfg in
      if mode = ''local'' then (AwaitLocal, s\<lparr>FALLBACK_ACTIVE := True\<rparr>)
      else if mode = ''api'' then (AwaitRemote, s\<lparr>FALLBACK_ACTIVE := False\<rparr>)
      else if mode = ''off'' then (AwaitRemote, s\<lparr>FALLBACK_ACTIVE := False\<rparr>)
      else if FALLBACK_ACTIVE s then (AwaitLocal, s)
      else (AwaitRemote, s))"

text \<open>
  The same function from the moment its remote call returns or raises (src/app.py 1507-1531,
  and the \<^verbatim>\<open>return await\<close> of lines 1491 and 1496 in the modes \<^verbatim>\<open>api\<close> and
  \<^verbatim>\<open>off\<close>): the request returns the vectors, raises, or goes on to the local call. The
  globals are read and written as they are at that moment.
\<close>

datatype 'm resumed = Return 'm | Raise error | Fallback

definition resilient_resume ::
  "config \<Rightarrow> error + 'm \<Rightarrow> resilience \<Rightarrow> 'm resumed \<times> resilience \<times> observation list" where
  "resilient_resume cfg r s =
     (let mode = MODEL_FALLBACK_MODE cfg in
      if mode = ''api'' \<or> mode = ''off'' then
        (case r of Inr vecs \<Rightarrow> (Return vecs, s, [RemoteReturned])
                 | Inl e \<Rightarrow> (Raise e, s, [RemoteFailed]))
      else
        (case r of
           Inr vecs \<Rightarrow> (Return vecs, s\<lparr>API_FAILURES := 0, FALLBACK_ACTIVE := False\<rparr>, [RemoteReturned])
         | Inl e \<Rightarrow>
             (let s' = s\<lparr>API_FAILURES := API_FAILURES s + 1\<rparr> in
              if API_FAILURES s' \<ge> API_MAX_FAILURES cfg then
                (Fallback, s'\<lparr>FALLBACK_ACTIVE := True\<rparr>, [RemoteFailed, FallbackNotice])
              else (Raise e, s', [RemoteFailed]))))"

text \<open>
  The state of the gather: where each worker is, the two dictionaries of the run, the
  process-wide variables, the world of the embedding paths and what was observed.
\<close>

record 'w gather =
  tasks :: "task list"
  results_match :: "(nat \<times> string list) list"
  results_score :: "(nat \<times> pyfloat list) list"
  globals :: resilience
  outside :: 'w
  observed :: "observation list"

text \<open>The workers that hold the semaphore.\<close>

definition in_flight :: "task list \<Rightarrow> nat" where
  "in_flight ts = length (filter (\<lambda>t. t = AwaitRemote \<or> t = AwaitLocal) ts)"

text \<open>
  The rest of the worker once its embeddings are there (src/app.py 1720-1733), which has no
  \<^verbatim>\<open>await\<close>: the similarity matrix, the loop over its rows, the two stores.
\<close>

definition worker_finish ::
  "('w, 'm) env \<Rightarrow> string list \<Rightarrow> 'm \<Rightarrow> nat \<Rightarrow> nat \<Rightarrow> 'm \<Rightarrow> 'w gather \<Rightarrow> error option \<times> 'w gather"
where
  "worker_finish env target_list target_embeddings k start emb g =
     (let g' = g\<lparr>tasks := (tasks g)[k := Done]\<rparr> in
      case cosine_similarity env emb target_embeddings of
        Inl e \<Rightarrow> (Some e, g')
      | Inr sim \<Rightarrow>
          (case match_rows target_list sim of
             Inl e \<Rightarrow> (Some e, g')
           | Inr (batch_matches, batch_scores) \<Rightarrow>
               (None, g'\<lparr>results_match := AList.update start batch_matches (results_match g'),
                          results_score := AList.update start batch_scores (results_score g')\<rparr>)))"

text \<open>
  One step of worker \<open>k\<close>, the worker of the \<open>k\<close>-th slice. A waiting worker enters when
  the semaphore has a free place and every worker before it has entered (the semaphore serves
  its waiters in the order they came, which is the order of the slices), and runs up to its
  first \<^verbatim>\<open>await\<close>. A suspended worker is resumed with the outcome of the call it awaits,
  made on the world as it is then, and runs to its next \<^verbatim>\<open>await\<close> or to its end, where
  it leaves the semaphore. A worker that cannot move, or is done, stays as it is.
\<close>

definition worker_step ::
  "config \<Rightarrow> ('w, 'm) env \<Rightarrow> string list \<Rightarrow> 'm \<Rightarrow> string list \<Rightarrow> (nat \<times> nat) list \<Rightarrow> int
     \<Rightarrow> nat \<Rightarrow> 'w gather \<Rightarrow> error option \<times> 'w gather"
where
  "worker_step cfg env target_list target_embeddings texts slices max_concurrency k g =
     (if k < length slices \<and> k < length (tasks g) then
        (let (start, stop) = slices ! k;
             batch = py_slice texts start stop
         in
         case tasks g ! k of
           Done \<Rightarrow> (None, g)
         | Waiting \<Rightarrow>
             if int (in_flight (tasks g)) < max_concurrency \<and> Waiting \<notin> set (take k (tasks g)) then
               (case resilient_begin cfg (globals g) of
                  (t, s') \<Rightarrow> (None, g\<lparr>tasks := (tasks g)[k := t], globals := s'\<rparr>))
             else (None, g)
         | AwaitRemote \<Rightarrow>
             (case try_api_embeddings env batch (outside g) of
                (r, w') \<Rightarrow>
                  (case resilient_resume cfg r (globals g) of
                     (Return emb, s', obs) \<Rightarrow>
                       worker_finish env target_list target_embeddings k start emb
                         (g\<lparr>globals := s', outside := w', observed := observed g @ obs\<rparr>)
                   | (Raise e, s', obs) \<Rightarrow>
                       (Some e, g\<lparr>tasks := (tasks g)[k := Done], globals := s', outside := w',
                                  observed := observed g @ obs\<rparr>)
                   | (Fallback, s', obs) \<Rightarrow>
                       (None, g\<lparr>tasks := (tasks g)[k := AwaitLocal], globals := s', outside := w',
                                observed := observed g @ obs\<rparr>)))
         | AwaitLocal \<Rightarrow>
             (case compute_embeddings_local_async env batch (outside g) of
                (Inr emb, w') \<Rightarrow>
                  worker_finish env target_list target_embeddings k start emb (g\<lparr>outside := w'\<rparr>)
              | (Inl e, w') \<Rightarrow> (Some e, g\<lparr>tasks := (tasks g)[k := Done], outside := w'\<rparr>)))
      else (None, g))"

text \<open>
  A schedule names the worker that takes the next step, again and again. The first worker
  that raises ends the gather with its exception; what the other workers do after that is not
  followed.
\<close>

fun run_schedule ::
  "(nat \<Rightarrow> 'w gather \<Rightarrow> error option \<times> 'w gather) \<Rightarrow> nat list \<Rightarrow> 'w gather \<Rightarrow> error option \<times> 'w gather"
where
  "run_schedule step [] g = (None, g)"
| "run_schedule step (k # ks) g =
     (case step k g of
        (Some e, g') \<Rightarrow> (Some e, g')
      | (None, g') \<Rightarrow> run_schedule step ks g')"

text \<open>
  Every history of the gather is a schedule. So that every schedule is a history, the workers
  a schedule leaves unfinished are then run one after the other in the order of the slices
  (three steps end a worker that can move); the empty schedule runs the workers one at a time.
\<close>

definition to_completion :: "nat \<Rightarrow> nat list" where
  "to_completion n = concat (map (\<lambda>k. [k, k, k]) [0..<n])"

definition gather_workers ::
  "config \<Rightarrow> ('w, 'm) env \<Rightarrow> string list \<Rightarrow> 'm \<Rightarrow> string list \<Rightarrow> (nat \<times> nat) list \<Rightarrow> int
     \<Rightarrow> nat list \<Rightarrow> resilience \<Rightarrow> 'w \<Rightarrow> error option \<times> 'w gather"
where
  "gather_workers cfg env target_list target_embeddings texts slices max_concurrency schedule s w =
     run_schedule (worker_step cfg env target_list target_embeddings texts slices max_concurrency)
       (schedule @ to_completion (length slices))
       \<lparr>tasks = replicate (length slices) Waiting, results_match = [], results_score = [],
        globals = s, outside = w, observed = []\<rparr>"

text \<open>
  \<^verbatim>\<open>run_embed_match_async\<close> (src/app.py 1680-1744). The target matrix is computed by
  one request for the whole (cleaned) target list, before any worker exists; the inputs are
  cut into slices of \<^verbatim>\<open>min(batch_size, 1024)\<close> and each slice is the request of one
  worker. \<^verbatim>\<open>asyncio.Semaphore(max_concurrency)\<close> raises \<^verbatim>\<open>ValueError\<close> for a negative
  value, and with the value 0 no worker ever enters.
\<close>

definition run_embed_match_async ::
  "config \<Rightarrow> ('w, 'm) env \<Rightarrow> string list \<Rightarrow> string list \<Rightarrow> int \<Rightarrow> int \<Rightarrow> bool \<Rightarrow> bool
     \<Rightarrow> nat list \<Rightarrow> resilience \<Rightarrow> 'w
     \<Rightarrow> (error + string list \<times> pyfloat list) \<times> resilience \<times> 'w"
where
  "run_embed_match_async cfg env input_list target_list batch_size max_concurrency
       clean_input clean_target schedule s w =
     (let input_list_clean = (if clean_input then clean_text_for_embedding input_list else input_list);
          target_list_clean = (if clean_target then clean_text_for_embedding target_list else target_list)
      in
      case compute_embeddings_resilient_async cfg env target_list_clean s w of
        (Inl e, s1, w1) \<Rightarrow> (Inl e, s1, w1)
      | (Inr target_embeddings, s1, w1) \<Rightarrow>
          (case chunk_indices (length input_list_clean) (min batch_size 1024) of
             Inl e \<Rightarrow> (Inl e, s1, w1)
           | Inr input_slices \<Rightarrow>
               if max_concurrency < 0 then (Inl ValueError, s1, w1)
               else if max_concurrency = 0 \<and> input_slices \<noteq> [] then (Inl NeverReturns, s1, w1)
               else
                 (case gather_workers cfg env target_list target_embeddings input_list_clean
                         input_slices max_concurrency schedule s1 w1 of
                    (Some e, g) \<Rightarrow> (Inl e, globals g, outside g)
                  | (None, g) \<Rightarrow>
                      (case extend_sorted (results_match g) (results_score g) of
                         Inl e \<Rightarrow> (Inl e, globals g, outside g)
                       | Inr (matches, scores) \<Rightarrow> (Inr (matches, scores), globals g, outside g)))))"

text \<open>
  What the handlers of the wrapper do to the failure counter when they run one after the
  other (src/app.py 1508 and 1512-1514): a remote call that returned puts it at 0, one that
  raised adds one to it and, when it has then reached \<^verbatim>\<open>API_MAX_FAILURES\<close>, gives the
  warning. The second component counts the warnings.
\<close>

definition count_outcome :: "int \<Rightarrow> observation \<Rightarrow> int \<times> nat \<Rightarrow> int \<times> nat" where
  "count_outcome max_failures ob cn =
     (case cn of
        (c, n) \<Rightarrow>
          (case ob of
             RemoteReturned \<Rightarrow> (0, n)
           | RemoteFailed \<Rightarrow> (c + 1, if max_failures \<le> c + 1 then Suc n else n)
           | FallbackNotice \<Rightarrow> (c, n)))"

section \<open>Lazy initialisation of the local model\<close>

text \<open>
  \<^verbatim>\<open>_load_local_model\<close> (src/app.py 1402-1438) and the process-wide
  \<^verbatim>\<open>_LOCAL_ST_MODEL\<close> (1223). A model is named by the number of the construction
  \<^verbatim>\<open>SentenceTransformer("thenlper/gte-large")\<close> that built it. A caller has called and
  not run yet, or is suspended in \<^verbatim>\<open>await asyncio.to_thread(...)\<close> (line 1423) while
  its model is built, or has returned with a model. The construction is taken to succeed.
\<close>

record loader =
  LOCAL_ST_MODEL :: "nat option"
  constructions :: nat

datatype caller = Called | Constructing nat | Holding nat

text \<open>
  One step of caller \<open>k\<close>. Its first step runs lines 1404-1423: it returns the cached
  model if there is one, else starts a construction and is suspended. Its second step runs
  from line 1424: it stores its model in the cache and returns it.
\<close>

definition load_step :: "nat \<Rightarrow> loader \<times> caller list \<Rightarrow> loader \<times> caller list" where
  "load_step k st =
     (case st of
        (l, callers) \<Rightarrow>
          if k < length callers then
            (case callers ! k of
               Called \<Rightarrow>
                 (case LOCAL_ST_MODEL l of
                    Some m \<Rightarrow> (l, callers[k := Holding m])
                  | None \<Rightarrow>
                      (l\<lparr>constructions := Suc (constructions l)\<rparr>,
                       callers[k := Constructing (Suc (constructions l))]))
             | Constructing n \<Rightarrow> (l\<lparr>LOCAL_ST_MODEL := Some n\<rparr>, callers[k := Holding n])
             | Holding m \<Rightarrow> (l, callers))
          else (l, callers))"

section \<open>A matching run\<close>


text \<open>
  \<^verbatim>\<open>results[col].round(4)\<close> (src/app.py 3558-3560): the value times 10000, rounded to
  the nearest integer with ties to the even one, divided by 10000; NaN stays NaN. Scores are
  binary floating point numbers, hence rationals or NaN; the rounding error of the
  multiplication and of the division is not modelled.
\<close>

definition rint :: "rat \<Rightarrow> int" where
  "rint x =
     (let f = \<lfloor>x\<rfloor>; d = x - of_int f in
      if d < 1 / 2 then f
      else if d > 1 / 2 then f + 1
      else if even f then f else f + 1)"

fun round4 :: "pyfloat \<Rightarrow> pyfloat" where
  "round4 NaN = NaN"
| "round4 (Finite x) = Finite (of_int (rint (x * 10000)) / 10000)"

text \<open>
  The status of a row (src/app.py 3570-3572):
  \<^verbatim>\<open>'NO MATCH' if (pd.notna(s) and float(s) < float(threshold)) else 'Match'\<close>.
\<close>

fun notna :: "pyfloat \<Rightarrow> bool" where
  "notna NaN = False"
| "notna (Finite x) = True"

fun float_less :: "pyfloat \<Rightarrow> pyfloat \<Rightarrow> bool" where
  "float_less (Finite x) (Finite y) = (x < y)"
| "float_less a b = False"

definition match_status :: "rat \<Rightarrow> pyfloat \<Rightarrow> string" where
  "match_status threshold s =
     (if notna s \<and> float_less s (Finite threshold) then ''NO MATCH'' else ''Match'')"

text \<open>
  A row of the result table: the status, the index of the input it belongs to and its
  similarity score. The two text columns are for display and are left out.
\<close>

record match_result =
  status :: string
  input_index :: nat
  similarity_score :: pyfloat

text \<open>
  The table of a run (src/app.py 3550-3572): the scores are rounded, then the status of each
  row is computed from the rounded score of that row.
\<close>

definition results_table :: "rat \<Rightarrow> pyfloat list \<Rightarrow> match_result list" where
  "results_table threshold scores =
     (let rounded = map round4 scores in
      map (\<lambda>(i, sc). \<lparr>status = match_status threshold sc, input_index = i, similarity_score = sc\<rparr>)
        (zip [0..<length rounded] rounded))"

text \<open>
  \<^verbatim>\<open>run_matching\<close> (src/app.py 3383-3658), the part that decides what is computed. The
  three early returns dispatch nothing and touch no global. \<open>embed_match\<close> is the call
  selected by \<^verbatim>\<open>USE_ASYNC\<close> (3525-3542), \<^verbatim>\<open>run_embed_match_async\<close> or
  \<^verbatim>\<open>run_embed_match\<close>, applied to the input list and the deduplicated target list. An
  empty string stands for a setting that is missing or empty. \<open>None\<close> is a run that
  returned early; an exception of the embedding step is re-raised by the handler (3649-3658).
\<close>

record run_request =
  in_empty :: bool
  tgt_empty :: bool
  in_col :: string
  tgt_col :: string
  api_key :: string
  threshold :: rat
  input_list :: "string list"
  target_list :: "string list"



section \<open>Test doubles\<close>

text \<open>
  Stand-ins for the collaborators, for running the definitions on concrete inputs. The
  embedding of a text is the list of its character codes; the world of \<open>mock_env\<close> counts
  the remote and the local calls made; its remote path fails as long as fewer than \<open>n\<close>
  remote calls were made, and its similarity of two rows is 1 when they are equal, else 0.
\<close>

definition fingerprint :: "string \<Rightarrow> nat list" where
  "fingerprint t = map of_char t"

definition mock_env :: "nat \<Rightarrow> (nat \<times> nat, nat list list) env" where
  "mock_env n =
     \<lparr>try_api_embeddings = (\<lambda>texts (r, l).
          (if r < n then Inl (APIError ''503'') else Inr (map fingerprint texts), (Suc r, l))),
      compute_embeddings_local_async = (\<lambda>texts (r, l). (Inr (map fingerprint texts), (r, Suc l))),
      cosine_similarity = (\<lambda>emb tgt.
          Inr (map (\<lambda>e. map (\<lambda>t. if e = t then Finite 1 else Finite 0) tgt) emb))\<rparr>"

definition auto_cfg :: config where
  "auto_cfg = \<lparr>MODEL_FALLBACK_MODE = ''auto'', API_MAX_FAILURES = 3\<rparr>"

text \<open>
  An environment whose remote path raises for every request that holds the text \<open>bad\<close>,
  and the setting \<^verbatim>\<open>API_EMBED_MAX_FAILURES=1\<close>.
\<close>

definition picky_env :: "string \<Rightarrow> (nat \<times> nat, nat list list) env" where
  "picky_env bad =
     \<lparr>try_api_embeddings = (\<lambda>texts (r, l).
          (if bad \<in> set texts then Inl (APIError ''503'') else Inr (map fingerprint texts), (Suc r, l))),
      compute_embeddings_local_async = (\<lambda>texts (r, l). (Inr (map fingerprint texts), (r, Suc l))),
      cosine_similarity = (\<lambda>emb tgt.
          Inr (map (\<lambda>e. map (\<lambda>t. if e = t then Finite 1 else Finite 0) tgt) emb))\<rparr>"

definition trip_cfg :: config where
  "trip_cfg = \<lparr>MODEL_FALLBACK_MODE = ''auto'', API_MAX_FAILURES = 1\<rparr>"

text \<open>
  Three workers, one text each, two places in the semaphore, after a target request that
  was answered by the service.
\<close>

definition trip_step :: "nat \<Rightarrow> (nat \<times> nat) gather \<Rightarrow> error option \<times> (nat \<times> nat) gather" where
  "trip_step = worker_step trip_cfg (picky_env ''a'') [''b'', ''c''] [[98], [99]]
       [''a'', ''b'', ''c''] [(0, 1), (1, 2), (2, 3)] 2"

definition trip_start :: "(nat \<times> nat) gather" where
  "trip_start =
     \<lparr>tasks = [Waiting, Waiting, Waiting], results_match = [], results_score = [],
      globals = \<lparr>FALLBACK_ACTIVE = False, API_FAILURES = 0\<rparr>, outside = (1, 0), observed = []\<rparr>"

text \<open>
  A service that answers every call with one vector per text, one that raises at its first
  \<open>n\<close> calls, and a process that has not called yet.
\<close>

definition good_api :: "nat api" where
  "good_api k texts = Inr (map (\<lambda>t. [length t, 1]) texts)"

definition flaky_api :: "nat \<Rightarrow> nat api" where
  "flaky_api n k texts = (if k < n then Inl (APIError ''503'') else good_api k texts)"

definition fresh_world :: world where
  "fresh_world = \<lparr>api_calls = 0, slept = []\<rparr>"



text \<open>
  The same three workers when the first two hold the text that the service refuses.
\<close>

definition twice_step :: "nat \<Rightarrow> (nat \<times> nat) gather \<Rightarrow> error option \<times> (nat \<times> nat) gather" where
  "twice_step = worker_step trip_cfg (picky_env ''a'') [''b'', ''c''] [[98], [99]]
       [''a'', ''a'', ''c''] [(0, 1), (1, 2), (2, 3)] 2"

section \<open>The status of a match result\<close>

lemma match_status_NO_MATCH_iff:
  "match_status t s = ''NO MATCH'' \<longleftrightarrow> float_less s (Finite t)"
  by (cases s) (simp_all add: match_status_def)

lemma match_status_at_threshold: "match_status t (Finite t) = ''Match''"
  by (simp add: match_status_def)

lemma results_table_nth:
  "i < length scores \<Longrightarrow>
     results_table t scores ! i =
       \<lparr>status = match_status t (round4 (scores ! i)), input_index = i,
        similarity_score = round4 (scores ! i)\<rparr>"
  by (simp add: results_table_def)

lemma length_results_table: "length (results_table t scores) = length scores"
  by (simp add: results_table_def)

lemma round4_example: "round4 (Finite (84996 / 100000)) = Finite (17 / 20)"
proof -
  have "\<lfloor>42498 / 5 :: rat\<rfloor> = 8499"
    by (rule floor_unique) simp_all
  then show ?thesis
    by (simp add: rint_def Let_def)
qed

text \<open>
  Claim C7. In every row of the result table of a run, the status is \<open>NO MATCH\<close> exactly
  when the similarity score of that row is strictly below the threshold (a NaN score is
  below nothing), and a row whose score equals the threshold has the status \<open>Match\<close>.
\<close>

theorem status_no_match_iff_below_threshold:
  "r \<in> set (results_table t scores) \<Longrightarrow>
     (status r = ''NO MATCH'' \<longleftrightarrow> float_less (similarity_score r) (Finite t)) \<and>
     (similarity_score r = Finite t \<longrightarrow> status r = ''Match'')"
proof -
  assume "r \<in> set (results_table t scores)"
  then obtain i where i: "i < length scores" and r: "r = results_table t scores ! i"
    by (auto simp: in_set_conv_nth length_results_table)
  show ?thesis
    unfolding r results_table_nth [OF i]
    by (auto simp: match_status_NO_MATCH_iff match_status_at_threshold)
qed

theorem status_no_match_iff_below_threshold_witness:
  "\<lparr>status = ''Match'', input_index = 0, similarity_score = Finite (17 / 20)\<rparr>
      \<in> set (results_table (17 / 20) [Finite (17 / 20), Finite (4 / 5)]) \<and>
   \<lparr>status = ''NO MATCH'', input_index = 1, similarity_score = Finite (4 / 5)\<rparr>
      \<in> set (results_table (17 / 20) [Finite (17 / 20), Finite (4 / 5)]) \<and>
   float_less (Finite (4 / 5)) (Finite (17 / 20)) \<and>
   \<not> float_less (Finite (17 / 20)) (Finite (17 / 20))"
  using status_no_match_iff_below_threshold
    [of "\<lparr>status = ''Match'', input_index = 0, similarity_score = Finite (17 / 20)\<rparr>"
        "17 / 20" "[Finite (17 / 20), Finite (4 / 5)]"]
  by (simp add: results_table_def match_status_def rint_def Let_def upt_rec)

lemma rint_unique:
  assumes "\<bar>y - of_int k\<bar> < 1 / 2 \<or> \<bar>y - of_int k\<bar> = 1 / 2 \<and> even k"
  shows "rint y = k"
proof -
  consider (a) "of_int k \<le> y" "y < of_int k + 1 / 2"
    | (b) "of_int k - 1 / 2 < y" "y < of_int k"
    | (c) "y = of_int k + 1 / 2" "even k"
    | (d) "y = of_int k - 1 / 2" "even k"
    using assms by (auto simp: abs_if split: if_splits)
  then show ?thesis
  proof cases
    case a
    have "\<lfloor>y\<rfloor> = k" by (rule floor_unique) (use a in auto)
    then show ?thesis using a by (simp add: rint_def Let_def)
  next
    case b
    have "\<lfloor>y\<rfloor> = k - 1" by (rule floor_unique) (use b in auto)
    then show ?thesis using b by (simp add: rint_def Let_def)
  next
    case c
    have "\<lfloor>y\<rfloor> = k" by (rule floor_unique) (use c in auto)
    then show ?thesis using c by (simp add: rint_def Let_def)
  next
    case d
    have "\<lfloor>y\<rfloor> = k - 1" by (rule floor_unique) (use d in auto)
    then show ?thesis using d by (simp add: rint_def Let_def)
  qed
qed

lemma rint_nearest:
  "\<bar>y - of_int (rint y)\<bar> < 1 / 2 \<or> \<bar>y - of_int (rint y)\<bar> = 1 / 2 \<and> even (rint y)"
proof -
  define f where "f = \<lfloor>y\<rfloor>"
  define d where "d = y - of_int f"
  have d: "0 \<le> d" "d < 1" unfolding d_def f_def by linarith+
  have y: "y = of_int f + d" by (simp add: d_def)
  have r: "rint y = (if d < 1 / 2 then f else if d > 1 / 2 then f + 1 else if even f then f else f + 1)"
    by (simp add: rint_def Let_def f_def d_def)
  consider "d < 1 / 2" | "d > 1 / 2" | "d = 1 / 2" by linarith
  then show ?thesis
  proof cases
    case 1
    then have "rint y = f" by (simp add: r)
    then show ?thesis using 1 d by (simp add: d_def abs_if)
  next
    case 2
    then have "rint y = f + 1" by (simp add: r)
    then show ?thesis using 2 d by (simp add: d_def abs_if)
  next
    case 3
    then have "rint y = (if even f then f else f + 1)" by (simp add: r)
    then show ?thesis using 3 by (simp add: d_def abs_if)
  qed
qed

text \<open>
  Claim C10. The status of row \<open>i\<close> is computed from the score of input \<open>i\<close> after that
  score has been rounded to four decimals. For a score \<open>x\<close> let \<open>k\<close> be the integer nearest
  to \<open>10000 x\<close>, the even one of the two when \<open>10000 x\<close> lies halfway; there is such a
  \<open>k\<close>. Then the score of the row is \<open>k / 10000\<close>, the status is \<open>NO MATCH\<close> exactly when
  \<open>k / 10000\<close> is below the threshold and \<open>Match\<close> exactly when it is not, whatever the raw
  score is. A NaN score has the status \<open>Match\<close>.
\<close>

theorem status_computed_from_rounded_score:
  assumes "i < length scores"
  shows
   "(scores ! i = NaN \<longrightarrow> status (results_table t scores ! i) = ''Match'') \<and>
    (\<forall>x. scores ! i = Finite x \<longrightarrow>
       (\<exists>k. \<bar>x * 10000 - of_int k\<bar> < 1 / 2 \<or> \<bar>x * 10000 - of_int k\<bar> = 1 / 2 \<and> even k)) \<and>
    (\<forall>x k. scores ! i = Finite x \<and>
            (\<bar>x * 10000 - of_int k\<bar> < 1 / 2 \<or> \<bar>x * 10000 - of_int k\<bar> = 1 / 2 \<and> even k) \<longrightarrow>
       similarity_score (results_table t scores ! i) = Finite (of_int k / 10000) \<and>
       (status (results_table t scores ! i) = ''NO MATCH'' \<longleftrightarrow> of_int k / 10000 < t) \<and>
       (status (results_table t scores ! i) = ''Match'' \<longleftrightarrow> t \<le> of_int k / 10000))"
proof (intro conjI allI impI)
  assume "scores ! i = NaN"
  then show "status (results_table t scores ! i) = ''Match''"
    by (simp add: results_table_nth [OF assms] match_status_def)
next
  fix x :: rat
  show "\<exists>k. \<bar>x * 10000 - of_int k\<bar> < 1 / 2 \<or> \<bar>x * 10000 - of_int k\<bar> = 1 / 2 \<and> even k"
    using rint_nearest [of "x * 10000"] by blast
next
  fix x k
  assume h: "scores ! i = Finite x \<and>
     (\<bar>x * 10000 - of_int k\<bar> < 1 / 2 \<or> \<bar>x * 10000 - of_int k\<bar> = 1 / 2 \<and> even k)"
  then have r: "rint (x * 10000) = k"
    by (intro rint_unique) simp
  have row: "results_table t scores ! i =
      \<lparr>status = match_status t (Finite (of_int k / 10000)), input_index = i,
       similarity_score = Finite (of_int k / 10000)\<rparr>"
    using h by (simp add: results_table_nth [OF assms] r)
  show "similarity_score (results_table t scores ! i) = Finite (of_int k / 10000)"
    by (simp add: row)
  show "status (results_table t scores ! i) = ''NO MATCH'' \<longleftrightarrow> of_int k / 10000 < t"
    by (simp add: row match_status_def)
  show "status (results_table t scores ! i) = ''Match'' \<longleftrightarrow> t \<le> of_int k / 10000"
    by (simp add: row match_status_def not_less)
qed

theorem status_computed_from_rounded_score_witness:
  "status (results_table (17 / 20) [Finite (84996 / 100000), NaN, Finite (846 / 1000)] ! 0) = ''Match'' \<and>
   similarity_score (results_table (17 / 20) [Finite (84996 / 100000), NaN, Finite (846 / 1000)] ! 0)
     = Finite (17 / 20) \<and>
   (84996 / 100000 :: rat) < 17 / 20 \<and>
   status (results_table (17 / 20) [Finite (84996 / 100000), NaN, Finite (846 / 1000)] ! 1) = ''Match'' \<and>
   status (results_table (17 / 20) [Finite (84996 / 100000), NaN, Finite (846 / 1000)] ! 2) = ''NO MATCH'' \<and>
   similarity_score (results_table (17 / 20) [Finite (84996 / 100000), NaN, Finite (846 / 1000)] ! 2)
     = Finite (846 / 1000)"
proof -
  let ?scores = "[Finite (84996 / 100000), NaN, Finite (846 / 1000)]"
  have l: "0 < length ?scores" "1 < length ?scores" "2 < length ?scores" by simp_all
  have k0: "\<bar>(84996 / 100000 :: rat) * 10000 - of_int 8500\<bar> < 1 / 2 \<or>
            \<bar>(84996 / 100000 :: rat) * 10000 - of_int 8500\<bar> = 1 / 2 \<and> even (8500 :: int)"
    by simp
  have k2: "\<bar>(846 / 1000 :: rat) * 10000 - of_int 8460\<bar> < 1 / 2 \<or>
            \<bar>(846 / 1000 :: rat) * 10000 - of_int 8460\<bar> = 1 / 2 \<and> even (8460 :: int)"
    by simp
  have s0: "?scores ! 0 = Finite (84996 / 100000)" and s1: "?scores ! 1 = NaN"
    and s2: "?scores ! 2 = Finite (846 / 1000)"
    by simp_all
  have a: "similarity_score (results_table (17 / 20) ?scores ! 0) = Finite (of_int 8500 / 10000) \<and>
       (status (results_table (17 / 20) ?scores ! 0) = ''Match'' \<longleftrightarrow> (17 / 20 :: rat) \<le> of_int 8500 / 10000)"
    using status_computed_from_rounded_score [OF l(1), of "17 / 20"] s0 k0 by blast
  have b: "status (results_table (17 / 20) ?scores ! 1) = ''Match''"
    using status_computed_from_rounded_score [OF l(2), of "17 / 20"] s1 by blast
  have c: "similarity_score (results_table (17 / 20) ?scores ! 2) = Finite (of_int 8460 / 10000) \<and>
       (status (results_table (17 / 20) ?scores ! 2) = ''NO MATCH'' \<longleftrightarrow> (of_int 8460 / 10000 :: rat) < 17 / 20)"
    using status_computed_from_rounded_score [OF l(3), of "17 / 20"] s2 k2 by blast
  show ?thesis
    using a b c by simp
qed

section \<open>The circuit breaker\<close>

lemma resilient_auto_normal:
  assumes "MODEL_FALLBACK_MODE cfg = ''auto''" and "\<not> FALLBACK_ACTIVE s"
  shows "compute_embeddings_resilient_async cfg env texts s w =
     (case try_api_embeddings env texts w of
        (Inr vecs, w') \<Rightarrow> (Inr vecs, \<lparr>FALLBACK_ACTIVE = False, API_FAILURES = 0\<rparr>, w')
      | (Inl e, w') \<Rightarrow>
          if API_MAX_FAILURES cfg \<le> API_FAILURES s + 1
          then (fst (compute_embeddings_local_async env texts w'),
                \<lparr>FALLBACK_ACTIVE = True, API_FAILURES = API_FAILURES s + 1\<rparr>,
                snd (compute_embeddings_local_async env texts w'))
          else (Inl e, \<lparr>FALLBACK_ACTIVE = False, API_FAILURES = API_FAILURES s + 1\<rparr>, w'))"
  using assms
  by (cases s) (auto simp: compute_embeddings_resilient_async_def Let_def split: prod.splits sum.splits)

lemma resilient_fallback:
  assumes "MODEL_FALLBACK_MODE cfg = ''auto''" and "FALLBACK_ACTIVE s"
  shows "compute_embeddings_resilient_async cfg env texts s w =
     (fst (compute_embeddings_local_async env texts w), s,
      snd (compute_embeddings_local_async env texts w))"
  using assms
  by (auto simp: compute_embeddings_resilient_async_def Let_def split: prod.splits)

text \<open>
  Claim C2. In auto mode with the fallback flag off, a request goes to the remote path
  first, on the world as it stands. If the remote path returns, its matrix is the result and
  the failure counter is 0. If it raises, the counter goes up by one; below the threshold the
  same exception is the result, the flag stays off and the local path is not called; at or
  above the threshold the flag is set and the result is that of the local path on the same
  texts, called after the failed remote call.
\<close>

theorem auto_mode_tries_remote_first:
  assumes "MODEL_FALLBACK_MODE cfg = ''auto''" and "\<not> FALLBACK_ACTIVE s"
  shows
   "(try_api_embeddings env texts w = (Inr vecs, w') \<longrightarrow>
       compute_embeddings_resilient_async cfg env texts s w =
         (Inr vecs, \<lparr>FALLBACK_ACTIVE = False, API_FAILURES = 0\<rparr>, w')) \<and>
    (try_api_embeddings env texts w = (Inl e, w') \<and> API_FAILURES s + 1 < API_MAX_FAILURES cfg \<longrightarrow>
       compute_embeddings_resilient_async cfg env texts s w =
         (Inl e, \<lparr>FALLBACK_ACTIVE = False, API_FAILURES = API_FAILURES s + 1\<rparr>, w')) \<and>
    (try_api_embeddings env texts w = (Inl e, w') \<and> API_MAX_FAILURES cfg \<le> API_FAILURES s + 1 \<longrightarrow>
       compute_embeddings_resilient_async cfg env texts s w =
         (fst (compute_embeddings_local_async env texts w'),
          \<lparr>FALLBACK_ACTIVE = True, API_FAILURES = API_FAILURES s + 1\<rparr>,
          snd (compute_embeddings_local_async env texts w')))"
  using resilient_auto_normal [OF assms, of env texts w] by auto

theorem auto_mode_tries_remote_first_witness:
  "MODEL_FALLBACK_MODE auto_cfg = ''auto'' \<and> API_MAX_FAILURES auto_cfg = 3 \<and>
   compute_embeddings_resilient_async auto_cfg (mock_env 0) [''pear'']
       \<lparr>FALLBACK_ACTIVE = False, API_FAILURES = 2\<rparr> (0, 0) =
     (Inr [[112, 101, 97, 114]], \<lparr>FALLBACK_ACTIVE = False, API_FAILURES = 0\<rparr>, (1, 0)) \<and>
   compute_embeddings_resilient_async auto_cfg (mock_env 5) [''pear'']
       \<lparr>FALLBACK_ACTIVE = False, API_FAILURES = 1\<rparr> (0, 0) =
     (Inl (APIError ''503''), \<lparr>FALLBACK_ACTIVE = False, API_FAILURES = 2\<rparr>, (1, 0)) \<and>
   compute_embeddings_resilient_async auto_cfg (mock_env 5) [''pear'']
       \<lparr>FALLBACK_ACTIVE = False, API_FAILURES = 2\<rparr> (0, 0) =
     (Inr [[112, 101, 97, 114]], \<lparr>FALLBACK_ACTIVE = True, API_FAILURES = 3\<rparr>, (1, 1))"
  using
    auto_mode_tries_remote_first [of auto_cfg "\<lparr>FALLBACK_ACTIVE = False, API_FAILURES = 2\<rparr>"
      "mock_env 0" "[''pear'']" "(0, 0)" "[[112, 101, 97, 114]]" "(1, 0)"]
    auto_mode_tries_remote_first [of auto_cfg "\<lparr>FALLBACK_ACTIVE = False, API_FAILURES = 1\<rparr>"
      "mock_env 5" "[''pear'']" "(0, 0)" _ "(1, 0)" "APIError ''503''"]
    auto_mode_tries_remote_first [of auto_cfg "\<lparr>FALLBACK_ACTIVE = False, API_FAILURES = 2\<rparr>"
      "mock_env 5" "[''pear'']" "(0, 0)" _ "(1, 0)" "APIError ''503''"]
  by (simp add: auto_cfg_def mock_env_def fingerprint_def)

text \<open>
  Cut at its awaits, the wrapper is the function it was as a whole: a request that is not
  interrupted goes through \<open>resilient_begin\<close>, its remote call, \<open>resilient_resume\<close> and,
  after a fallback, its local call.
\<close>

lemma resilient_split:
  "compute_embeddings_resilient_async cfg env texts s w =
     (case resilient_begin cfg s of
        (t, s1) \<Rightarrow>
          if t = AwaitLocal then
            (case compute_embeddings_local_async env texts w of (r, w') \<Rightarrow> (r, s1, w'))
          else
            (case try_api_embeddings env texts w of
               (r, w') \<Rightarrow>
                 (case resilient_resume cfg r s1 of
                    (Return vecs, s2, obs) \<Rightarrow> (Inr vecs, s2, w')
                  | (Raise e, s2, obs) \<Rightarrow> (Inl e, s2, w')
                  | (Fallback, s2, obs) \<Rightarrow>
                      (case compute_embeddings_local_async env texts w' of
                         (r', w'') \<Rightarrow> (r', s2, w'')))))"
  by (cases s)
    (auto simp: compute_embeddings_resilient_async_def resilient_begin_def resilient_resume_def
      Let_def split: prod.splits sum.splits)

lemmas worker_eval = worker_step_def worker_finish_def
  resilient_begin_def resilient_resume_def in_flight_def py_slice_def picky_env_def trip_cfg_def
  fingerprint_def np_argmax_def py_index_def

text \<open>
  Claim C3. Once the fallback flag is on, the requests of the run are to be served locally
  and the flag is to stay on. It does not, when requests overlap. Take the threshold 1, two
  places in the semaphore and three workers, after a target request answered by the service.
  Workers 0 and 1 enter and are suspended in their remote calls. The call of worker 0 raises:
  the counter reaches the threshold, the flag is set, worker 0 goes on to the local model. The
  call of worker 1, begun when the flag was off, then returns, and line 1509 puts the flag
  off. Worker 2 enters after that, finds the flag off and calls the service. The run ends
  with the flag off, after four calls of the service and one of the local model.
\<close>

theorem fallback_flag_cleared_by_request_in_flight:
  "run_schedule trip_step [0, 1, 0] trip_start =
     (None,
      \<lparr>tasks = [AwaitLocal, AwaitRemote, Waiting], results_match = [], results_score = [],
       globals = \<lparr>FALLBACK_ACTIVE = True, API_FAILURES = 1\<rparr>, outside = (2, 0),
       observed = [RemoteFailed, FallbackNotice]\<rparr>) \<and>
   run_schedule trip_step [0, 1, 0, 1, 2] trip_start =
     (None,
      \<lparr>tasks = [AwaitLocal, Done, AwaitRemote], results_match = [(1, [''b''])],
       results_score = [(1, [Finite 1])],
       globals = \<lparr>FALLBACK_ACTIVE = False, API_FAILURES = 0\<rparr>, outside = (3, 0),
       observed = [RemoteFailed, FallbackNotice, RemoteReturned]\<rparr>) \<and>
   run_embed_match_async trip_cfg (picky_env ''a'') [''a'', ''b'', ''c''] [''b'', ''c''] 1 2 False False
       [0, 1, 0, 1, 2, 2, 0] \<lparr>FALLBACK_ACTIVE = False, API_FAILURES = 0\<rparr> (0, 0) =
     (Inr ([''b'', ''b'', ''c''], [Finite 0, Finite 1, Finite 1]),
      \<lparr>FALLBACK_ACTIVE = False, API_FAILURES = 0\<rparr>, (4, 1))"
proof (intro conjI)
  show "run_schedule trip_step [0, 1, 0] trip_start =
     (None,
      \<lparr>tasks = [AwaitLocal, AwaitRemote, Waiting], results_match = [], results_score = [],
       globals = \<lparr>FALLBACK_ACTIVE = True, API_FAILURES = 1\<rparr>, outside = (2, 0),
       observed = [RemoteFailed, FallbackNotice]\<rparr>)"
    by (simp add: trip_step_def trip_start_def worker_eval)
  show "run_schedule trip_step [0, 1, 0, 1, 2] trip_start =
     (None,
      \<lparr>tasks = [AwaitLocal, Done, AwaitRemote], results_match = [(1, [''b''])],
       results_score = [(1, [Finite 1])],
       globals = \<lparr>FALLBACK_ACTIVE = False, API_FAILURES = 0\<rparr>, outside = (3, 0),
       observed = [RemoteFailed, FallbackNotice, RemoteReturned]\<rparr>)"
    by (simp add: trip_step_def trip_start_def worker_eval)
  show "run_embed_match_async trip_cfg (picky_env ''a'') [''a'', ''b'', ''c''] [''b'', ''c''] 1 2 False False
       [0, 1, 0, 1, 2, 2, 0] \<lparr>FALLBACK_ACTIVE = False, API_FAILURES = 0\<rparr> (0, 0) =
     (Inr ([''b'', ''b'', ''c''], [Finite 0, Finite 1, Finite 1]),
      \<lparr>FALLBACK_ACTIVE = False, API_FAILURES = 0\<rparr>, (4, 1))"
    by (simp add: run_embed_match_async_def gather_workers_def to_completion_def
        compute_embeddings_resilient_async_def chunk_indices_def py_range_step_def extend_sorted_def
        worker_eval)
qed

section \<open>The start of a run\<close>






section \<open>The remote backend and the thread pool scheduler\<close>

lemma compute_embeddings_deepinfra_raises:
  "compute_embeddings_deepinfra api texts w =
     (Inl (DeepInfraError (case api (api_calls w) texts of Inl e \<Rightarrow> e | Inr d \<Rightarrow> AttributeError)),
      w\<lparr>api_calls := Suc (api_calls w)\<rparr>)"
  by (simp add: compute_embeddings_deepinfra_def embeddings_create_def split: sum.splits)

lemma run_pool_all_raise:
  assumes "\<And>batch w. \<exists>e. fst (backend batch w) = Inl e"
  shows "map snd (fst (run_pool backend texts slices w)) \<in> lists (range Inl)"
proof (induction slices arbitrary: w)
  case Nil
  show ?case by simp
next
  case (Cons sl slices)
  obtain start stop where sl: "sl = (start, stop)" by (cases sl)
  obtain r w' where b: "backend (py_slice texts start stop) w = (r, w')"
    by (cases "backend (py_slice texts start stop) w")
  obtain e where r: "r = Inl e"
    using assms [of "py_slice texts start stop" w] by (auto simp: b)
  obtain futures w'' where p: "run_pool backend texts slices w' = (futures, w'')"
    by (cases "run_pool backend texts slices w'")
  show ?case
    using Cons [of w'] by (simp add: sl b r p)
qed

lemma run_pool_futures:
  "map snd (fst (run_pool (compute_embeddings_deepinfra api) texts slices w)) \<in> lists (range Inl)"
  by (rule run_pool_all_raise) (simp add: compute_embeddings_deepinfra_raises)

lemma collect_results_all_raised:
  "map snd futures \<in> lists (range Inl) \<Longrightarrow> futures \<noteq> [] \<Longrightarrow> \<exists>e. collect_results futures results = Inl e"
  by (cases futures) auto

lemma compute_embeddings_parallel_returns_iff:
  "(\<exists>m. fst (compute_embeddings_parallel api texts batch_size max_concurrency as_completed w) = Inr m)
     \<longleftrightarrow> texts = []"
proof (cases "texts = []")
  case True
  then show ?thesis by (simp add: compute_embeddings_parallel_def)
next
  case False
  have "\<exists>e. fst (compute_embeddings_parallel api texts batch_size max_concurrency as_completed w) = Inl e"
  proof (cases "chunk_indices (length texts) batch_size")
    case (Inl e)
    then show ?thesis using False by (simp add: compute_embeddings_parallel_def)
  next
    case (Inr slices)
    show ?thesis
    proof (cases "max_concurrency \<le> 0")
      case True
      then show ?thesis using False Inr by (simp add: compute_embeddings_parallel_def)
    next
      case mc: False
      obtain futures w' where rp:
        "run_pool (compute_embeddings_deepinfra api) texts (as_completed slices) w = (futures, w')"
        by (cases "run_pool (compute_embeddings_deepinfra api) texts (as_completed slices) w")
      have all: "map snd futures \<in> lists (range Inl)"
        using run_pool_futures [of api texts "as_completed slices" w] by (simp add: rp)
      show ?thesis
      proof (cases "futures = []")
        case True
        then show ?thesis
          using False Inr mc rp
          by (simp add: compute_embeddings_parallel_def assemble_def vstack_def)
      next
        case ne: False
        from collect_results_all_raised [OF all ne, of "[]"]
        obtain e where "collect_results futures [] = Inl e" by blast
        then show ?thesis
          using False Inr mc rp by (simp add: compute_embeddings_parallel_def)
      qed
    qed
  qed
  then show ?thesis using False by auto
qed

lemma backoff_values: "map backoff [0..<5] = [1 / 4, 1 / 2, 1, 2, 4]"
  by (simp add: backoff_def upt_rec)

text \<open>
  Claim C6. A remote call that does not raise returns one vector per input, in the order of
  the request. The synchronous backend has no call that does not raise: the comma after
  \<^verbatim>\<open>client.embeddings.create(...)\<close> (line 1286) makes \<^verbatim>\<open>response\<close> a tuple, so
  \<^verbatim>\<open>response.data\<close> raises and the handler wraps it, also when the service answered
  with one vector per text. On the same answer the asynchronous backend returns the
  vectors as they came.
\<close>

theorem sync_backend_returns_no_matrix:
  "compute_embeddings_deepinfra good_api [''apple'', ''fig''] fresh_world =
     (Inl (DeepInfraError AttributeError), \<lparr>api_calls = 1, slept = []\<rparr>) \<and>
   compute_embeddings_deepinfra_async good_api [''apple'', ''fig''] fresh_world =
     (Inr (Arr2 2 [[5, 1], [3, 1]]), \<lparr>api_calls = 1, slept = []\<rparr>) \<and>
   (\<forall>api texts w. \<exists>e. fst (compute_embeddings_deepinfra (api :: nat api) texts w) = Inl (DeepInfraError e))"
proof (intro conjI allI)
  show "compute_embeddings_deepinfra good_api [''apple'', ''fig''] fresh_world =
     (Inl (DeepInfraError AttributeError), \<lparr>api_calls = 1, slept = []\<rparr>)"
    by (simp add: compute_embeddings_deepinfra_raises good_api_def fresh_world_def)
  show "compute_embeddings_deepinfra_async good_api [''apple'', ''fig''] fresh_world =
     (Inr (Arr2 2 [[5, 1], [3, 1]]), \<lparr>api_calls = 1, slept = []\<rparr>)"
    by (simp add: compute_embeddings_deepinfra_async_def upt_rec embeddings_create_def
        good_api_def fresh_world_def np_array_def)
  show "\<exists>e. fst (compute_embeddings_deepinfra api texts w) = Inl (DeepInfraError e)"
    for api :: "nat api" and texts w
    by (simp add: compute_embeddings_deepinfra_raises)
qed

text \<open>
  Claim C5. Both remote backends are to retry a failed call, with delays 0.25, 0.5, 1, 2, 4
  seconds and at most five attempts. The synchronous backend calls the service once and
  never sleeps, whatever the service does: at a service that fails once it raises after its
  first call, where the asynchronous backend sleeps 0.25 seconds, calls again and returns.
  At a service that fails five times the asynchronous backend makes five calls, sleeps after
  each and raises an error that names the last failure.
\<close>

theorem sync_backend_makes_one_attempt:
  "compute_embeddings_deepinfra (flaky_api 1) [''apple'', ''fig''] fresh_world =
     (Inl (DeepInfraError (APIError ''503'')), \<lparr>api_calls = 1, slept = []\<rparr>) \<and>
   compute_embeddings_deepinfra_async (flaky_api 1) [''apple'', ''fig''] fresh_world =
     (Inr (Arr2 2 [[5, 1], [3, 1]]), \<lparr>api_calls = 2, slept = [1 / 4]\<rparr>) \<and>
   compute_embeddings_deepinfra_async (flaky_api 5) [''apple'', ''fig''] fresh_world =
     (Inl (DeepInfraError (AfterRetries (Some (APIError ''503'')))),
      \<lparr>api_calls = 5, slept = [1 / 4, 1 / 2, 1, 2, 4]\<rparr>) \<and>
   (\<forall>api texts w.
      snd (compute_embeddings_deepinfra (api :: nat api) texts w) = w\<lparr>api_calls := Suc (api_calls w)\<rparr>)"
proof (intro conjI allI)
  show "compute_embeddings_deepinfra (flaky_api 1) [''apple'', ''fig''] fresh_world =
     (Inl (DeepInfraError (APIError ''503'')), \<lparr>api_calls = 1, slept = []\<rparr>)"
    by (simp add: compute_embeddings_deepinfra_raises flaky_api_def fresh_world_def)
  show "compute_embeddings_deepinfra_async (flaky_api 1) [''apple'', ''fig''] fresh_world =
     (Inr (Arr2 2 [[5, 1], [3, 1]]), \<lparr>api_calls = 2, slept = [1 / 4]\<rparr>)"
    by (simp add: compute_embeddings_deepinfra_async_def upt_rec embeddings_create_def sleep_def
        backoff_def flaky_api_def good_api_def fresh_world_def np_array_def)
  show "compute_embeddings_deepinfra_async (flaky_api 5) [''apple'', ''fig''] fresh_world =
     (Inl (DeepInfraError (AfterRetries (Some (APIError ''503'')))),
      \<lparr>api_calls = 5, slept = [1 / 4, 1 / 2, 1, 2, 4]\<rparr>)"
    by (simp add: compute_embeddings_deepinfra_async_def upt_rec embeddings_create_def sleep_def
        backoff_def flaky_api_def good_api_def fresh_world_def np_array_def)
  show "snd (compute_embeddings_deepinfra api texts w) = w\<lparr>api_calls := Suc (api_calls w)\<rparr>"
    for api :: "nat api" and texts w
    by (simp add: compute_embeddings_deepinfra_raises)
qed

text \<open>
  Claim C1. The scheduler is to return a matrix with one row per text, in the order of the
  texts. \<^verbatim>\<open>compute_embeddings_parallel\<close> returns a matrix for the empty list only: each
  of its batches is a call of the synchronous backend, which raises, and the loop over the
  completed futures re-raises the first of them. Three texts in batches of two, at a
  service that answers every call, end in the exception after both batches have run.
\<close>

theorem sync_scheduler_returns_no_matrix:
  "compute_embeddings_parallel good_api [''apple'', ''fig'', ''kiwi''] 2 2 rev fresh_world =
     (Inl (DeepInfraError AttributeError), \<lparr>api_calls = 2, slept = []\<rparr>) \<and>
   (\<forall>api texts batch_size max_concurrency as_completed w.
      (\<exists>m. fst (compute_embeddings_parallel (api :: nat api) texts batch_size max_concurrency as_completed w) = Inr m)
        \<longleftrightarrow> texts = [])"
proof (intro conjI allI)
  show "compute_embeddings_parallel good_api [''apple'', ''fig'', ''kiwi''] 2 2 rev fresh_world =
     (Inl (DeepInfraError AttributeError), \<lparr>api_calls = 2, slept = []\<rparr>)"
    by (simp add: compute_embeddings_parallel_def chunk_indices_def py_range_step_def py_slice_def
        compute_embeddings_deepinfra_raises good_api_def fresh_world_def)
qed (rule compute_embeddings_parallel_returns_iff)

section \<open>Targets and labels\<close>














section \<open>Concurrent workers and the shared state\<close>

lemma fold_count_outcome_shift:
  "fold (count_outcome T) obs (c, n + m) =
     (fst (fold (count_outcome T) obs (c, n)), snd (fold (count_outcome T) obs (c, n)) + m)"
proof (induction obs arbitrary: c n)
  case Nil
  show ?case by simp
next
  case (Cons ob obs)
  show ?case
    using Cons [of _ "Suc n"] Cons [of _ n]
    by (cases ob) (simp_all add: count_outcome_def)
qed



lemma worker_finish_frame:
  "globals (snd (worker_finish env tgts te k start emb g)) = globals g \<and>
   observed (snd (worker_finish env tgts te k start emb g)) = observed g"
  by (simp add: worker_finish_def Let_def split: sum.splits prod.splits)

lemma resilient_begin_counter:
  "API_FAILURES (snd (resilient_begin cfg s)) = API_FAILURES s"
  by (simp add: resilient_begin_def Let_def)

lemma resilient_resume_auto:
  assumes "MODEL_FALLBACK_MODE cfg \<notin> {''local'', ''api'', ''off''}"
  shows "resilient_resume cfg r s =
     (case r of
        Inr vecs \<Rightarrow> (Return vecs, s\<lparr>API_FAILURES := 0, FALLBACK_ACTIVE := False\<rparr>, [RemoteReturned])
      | Inl e \<Rightarrow>
          if API_MAX_FAILURES cfg \<le> API_FAILURES s + 1
          then (Fallback, s\<lparr>API_FAILURES := API_FAILURES s + 1, FALLBACK_ACTIVE := True\<rparr>,
                [RemoteFailed, FallbackNotice])
          else (Raise e, s\<lparr>API_FAILURES := API_FAILURES s + 1\<rparr>, [RemoteFailed]))"
  using assms by (simp add: resilient_resume_def Let_def split: sum.splits)

lemma worker_step_counts:
  assumes auto: "MODEL_FALLBACK_MODE cfg \<notin> {''local'', ''api'', ''off''}"
  shows "\<exists>obs. observed (snd (worker_step cfg env tgts te texts slices mc k g)) = observed g @ obs \<and>
     (API_FAILURES (globals (snd (worker_step cfg env tgts te texts slices mc k g))),
      length (filter (\<lambda>ob. ob = FallbackNotice) obs)) =
       fold (count_outcome (API_MAX_FAILURES cfg)) obs (API_FAILURES (globals g), 0)"
proof (cases "k < length slices \<and> k < length (tasks g)")
  case False
  then have "worker_step cfg env tgts te texts slices mc k g = (None, g)"
    unfolding worker_step_def by (rule if_not_P)
  then show ?thesis by (intro exI [of _ "[]"]) simp
next
  case True
  obtain start stop where sl: "slices ! k = (start, stop)" by (cases "slices ! k")
  show ?thesis
  proof (cases "tasks g ! k")
    case Done
    then have "worker_step cfg env tgts te texts slices mc k g = (None, g)"
      using True by (simp add: worker_step_def sl)
    then show ?thesis by (intro exI [of _ "[]"]) simp
  next
    case Waiting
    obtain t s' where b: "resilient_begin cfg (globals g) = (t, s')"
      by (cases "resilient_begin cfg (globals g)")
    have s': "API_FAILURES s' = API_FAILURES (globals g)"
      using resilient_begin_counter [of cfg "globals g"] by (simp add: b)
    have "worker_step cfg env tgts te texts slices mc k g = (None, g) \<or>
          worker_step cfg env tgts te texts slices mc k g =
            (None, g\<lparr>tasks := (tasks g)[k := t], globals := s'\<rparr>)"
      using True Waiting by (simp add: worker_step_def sl b)
    then have "observed (snd (worker_step cfg env tgts te texts slices mc k g)) = observed g"
      "API_FAILURES (globals (snd (worker_step cfg env tgts te texts slices mc k g))) =
         API_FAILURES (globals g)"
      using s' by auto
    then show ?thesis by (intro exI [of _ "[]"]) simp
  next
    case AwaitLocal
    then have "observed (snd (worker_step cfg env tgts te texts slices mc k g)) = observed g"
      "API_FAILURES (globals (snd (worker_step cfg env tgts te texts slices mc k g))) =
         API_FAILURES (globals g)"
      using True
      by (auto simp: worker_step_def sl worker_finish_frame split: prod.splits sum.splits)
    then show ?thesis by (intro exI [of _ "[]"]) simp
  next
    case AwaitRemote
    obtain r w' where call: "try_api_embeddings env (py_slice texts start stop) (outside g) = (r, w')"
      by (cases "try_api_embeddings env (py_slice texts start stop) (outside g)")
    show ?thesis
    proof (cases r)
      case (Inr vecs)
      have "observed (snd (worker_step cfg env tgts te texts slices mc k g)) = observed g @ [RemoteReturned]"
        "API_FAILURES (globals (snd (worker_step cfg env tgts te texts slices mc k g))) = 0"
        using True AwaitRemote
        by (simp_all add: worker_step_def sl call Inr resilient_resume_auto [OF auto] worker_finish_frame)
      then show ?thesis
        by (intro exI [of _ "[RemoteReturned]"]) (simp add: count_outcome_def)
    next
      case (Inl e)
      show ?thesis
      proof (cases "API_MAX_FAILURES cfg \<le> API_FAILURES (globals g) + 1")
        case over: True
        have "observed (snd (worker_step cfg env tgts te texts slices mc k g)) =
            observed g @ [RemoteFailed, FallbackNotice]"
          "API_FAILURES (globals (snd (worker_step cfg env tgts te texts slices mc k g))) =
            API_FAILURES (globals g) + 1"
          using True AwaitRemote over
          by (simp_all add: worker_step_def sl call Inl resilient_resume_auto [OF auto])
        then show ?thesis
          using over by (intro exI [of _ "[RemoteFailed, FallbackNotice]"]) (simp add: count_outcome_def)
      next
        case under: False
        have "observed (snd (worker_step cfg env tgts te texts slices mc k g)) =
            observed g @ [RemoteFailed]"
          "API_FAILURES (globals (snd (worker_step cfg env tgts te texts slices mc k g))) =
            API_FAILURES (globals g) + 1"
          using True AwaitRemote under
          by (simp_all add: worker_step_def sl call Inl resilient_resume_auto [OF auto])
        then show ?thesis
          using under by (intro exI [of _ "[RemoteFailed]"]) (simp add: count_outcome_def)
      qed
    qed
  qed
qed

lemma run_schedule_counts:
  assumes auto: "MODEL_FALLBACK_MODE cfg \<notin> {''local'', ''api'', ''off''}"
  shows "\<exists>obs. observed (snd (run_schedule (worker_step cfg env tgts te texts slices mc) sched g)) =
            observed g @ obs \<and>
     (API_FAILURES (globals (snd (run_schedule (worker_step cfg env tgts te texts slices mc) sched g))),
      length (filter (\<lambda>ob. ob = FallbackNotice) obs)) =
       fold (count_outcome (API_MAX_FAILURES cfg)) obs (API_FAILURES (globals g), 0)"
proof (induction sched arbitrary: g)
  case Nil
  show ?case by (intro exI [of _ "[]"]) simp
next
  case (Cons k sched)
  let ?step = "worker_step cfg env tgts te texts slices mc"
  obtain r g1 where st: "?step k g = (r, g1)" by (cases "?step k g")
  from worker_step_counts [OF auto, of env tgts te texts slices mc k g]
  obtain obs1 where o1: "observed g1 = observed g @ obs1"
    and c1: "(API_FAILURES (globals g1), length (filter (\<lambda>ob. ob = FallbackNotice) obs1)) =
       fold (count_outcome (API_MAX_FAILURES cfg)) obs1 (API_FAILURES (globals g), 0)"
    by (auto simp: st)
  show ?case
  proof (cases r)
    case (Some e)
    then have "run_schedule ?step (k # sched) g = (Some e, g1)" by (simp add: st)
    then show ?thesis using o1 c1 by (intro exI [of _ obs1]) simp
  next
    case None
    then have run: "run_schedule ?step (k # sched) g = run_schedule ?step sched g1" by (simp add: st)
    from Cons [of g1]
    obtain obs2 where o2: "observed (snd (run_schedule ?step sched g1)) = observed g1 @ obs2"
      and c2: "(API_FAILURES (globals (snd (run_schedule ?step sched g1))),
           length (filter (\<lambda>ob. ob = FallbackNotice) obs2)) =
         fold (count_outcome (API_MAX_FAILURES cfg)) obs2 (API_FAILURES (globals g1), 0)"
      by blast
    have "fold (count_outcome (API_MAX_FAILURES cfg)) (obs1 @ obs2) (API_FAILURES (globals g), 0) =
          fold (count_outcome (API_MAX_FAILURES cfg)) obs2
            (API_FAILURES (globals g1), 0 + length (filter (\<lambda>ob. ob = FallbackNotice) obs1))"
      by (simp add: c1 [symmetric])
    also have "\<dots> = (API_FAILURES (globals (snd (run_schedule ?step sched g1))),
         length (filter (\<lambda>ob. ob = FallbackNotice) obs2) + length (filter (\<lambda>ob. ob = FallbackNotice) obs1))"
      by (simp only: fold_count_outcome_shift c2 [symmetric] fst_conv snd_conv)
    finally have comb:
      "fold (count_outcome (API_MAX_FAILURES cfg)) (obs1 @ obs2) (API_FAILURES (globals g), 0) =
         (API_FAILURES (globals (snd (run_schedule ?step sched g1))),
          length (filter (\<lambda>ob. ob = FallbackNotice) (obs1 @ obs2)))"
      by simp
    have "observed (snd (run_schedule ?step (k # sched) g)) = observed g @ (obs1 @ obs2)"
      by (simp only: run o2 o1 append_assoc)
    then show ?thesis
      unfolding run using comb [symmetric] by blast
  qed
qed

lemma load_step_first_callers:
  "j \<le> n \<Longrightarrow>
     fold load_step [0..<j] (\<lparr>LOCAL_ST_MODEL = None, constructions = 0\<rparr>, replicate n Called) =
       (\<lparr>LOCAL_ST_MODEL = None, constructions = j\<rparr>,
        map Constructing [1..<Suc j] @ replicate (n - j) Called)"
proof (induction j)
  case 0
  show ?case by simp
next
  case (Suc j)
  then have j: "j < n" by simp
  obtain m where m: "n - j = Suc m" "n - Suc j = m"
    using j by (cases "n - j") auto
  have len: "length (map Constructing [1..<Suc j]) = j" by simp
  have upd: "(map Constructing [1..<Suc j] @ replicate (n - j) Called)[j := Constructing (Suc j)] =
        map Constructing [1..<Suc (Suc j)] @ replicate (n - Suc j) Called"
    unfolding m by (simp add: list_update_append)
  have at: "(map Constructing [1..<Suc j] @ replicate (n - j) Called) ! j = Called"
    unfolding m by (simp add: nth_append)
  have "fold load_step [0..<Suc j] (\<lparr>LOCAL_ST_MODEL = None, constructions = 0\<rparr>, replicate n Called) =
        load_step j (\<lparr>LOCAL_ST_MODEL = None, constructions = j\<rparr>,
          map Constructing [1..<Suc j] @ replicate (n - j) Called)"
    using Suc.IH j by simp
  also have "\<dots> = (\<lparr>LOCAL_ST_MODEL = None, constructions = Suc j\<rparr>,
        (map Constructing [1..<Suc j] @ replicate (n - j) Called)[j := Constructing (Suc j)])"
    using j at by (simp add: load_step_def del: upt_Suc)
  finally show ?case
    by (simp only: upd)
qed

lemma load_step_loaded:
  assumes "LOCAL_ST_MODEL (fst st) \<noteq> None"
  shows "constructions (fst (load_step k st)) = constructions (fst st) \<and>
         LOCAL_ST_MODEL (fst (load_step k st)) \<noteq> None"
proof -
  obtain l callers where st: "st = (l, callers)" by (cases st)
  show ?thesis
    using assms unfolding st by (cases "callers ! k") (auto simp: load_step_def)
qed

lemma fold_load_step_loaded:
  "LOCAL_ST_MODEL (fst st) \<noteq> None \<Longrightarrow>
     constructions (fst (fold load_step sched st)) = constructions (fst st) \<and>
     LOCAL_ST_MODEL (fst (fold load_step sched st)) \<noteq> None"
proof (induction sched arbitrary: st)
  case Nil
  then show ?case by simp
next
  case (Cons k sched)
  from load_step_loaded [OF Cons.prems, of k] Cons.IH [of "load_step k st"]
  show ?case by simp
qed

text \<open>
  Against claim C9. With the threshold 1, workers 0 and 1 are both suspended in their remote
  calls and both calls raise: each handler finds the counter at or over the threshold, so
  the warning is given twice in one run. Two callers of \<^verbatim>\<open>_load_local_model\<close> that
  both find the cache empty both build the model; the cache keeps the one stored last.
\<close>

theorem concurrent_failures_notify_and_load_twice:
  "run_schedule twice_step [0, 1, 0, 1] trip_start =
     (None,
      \<lparr>tasks = [AwaitLocal, AwaitLocal, Waiting], results_match = [], results_score = [],
       globals = \<lparr>FALLBACK_ACTIVE = True, API_FAILURES = 2\<rparr>, outside = (3, 0),
       observed = [RemoteFailed, FallbackNotice, RemoteFailed, FallbackNotice]\<rparr>) \<and>
   fold load_step [0, 1, 0, 1] (\<lparr>LOCAL_ST_MODEL = None, constructions = 0\<rparr>, [Called, Called]) =
     (\<lparr>LOCAL_ST_MODEL = Some 2, constructions = 2\<rparr>, [Holding 1, Holding 2])"
proof (intro conjI)
  show "run_schedule twice_step [0, 1, 0, 1] trip_start =
     (None,
      \<lparr>tasks = [AwaitLocal, AwaitLocal, Waiting], results_match = [], results_score = [],
       globals = \<lparr>FALLBACK_ACTIVE = True, API_FAILURES = 2\<rparr>, outside = (3, 0),
       observed = [RemoteFailed, FallbackNotice, RemoteFailed, FallbackNotice]\<rparr>)"
    by (simp add: twice_step_def trip_start_def worker_eval)
  show "fold load_step [0, 1, 0, 1] (\<lparr>LOCAL_ST_MODEL = None, constructions = 0\<rparr>, [Called, Called]) =
     (\<lparr>LOCAL_ST_MODEL = Some 2, constructions = 2\<rparr>, [Holding 1, Holding 2])"
    by (simp add: load_step_def)
qed

text \<open>
  Claim C9, as amended. No lock serialises the workers, and none is needed for the counter:
  a handler reads and writes the globals between two awaits, so in auto mode, after any
  history of the workers from any state, the counter is what the remote outcomes observed
  give when they are applied one after the other in the order they happened, and the
  warnings given are as many as the failures among them that brought the counter to the
  threshold or over it, one each. Lazy initialisation is entered by every caller that finds
  the cache empty: of \<open>n\<close> callers, the first \<open>j\<close> to run before any model is stored
  start \<open>j\<close> constructions. Once a model is stored, the cache is never empty again and
  no construction is started, whatever the callers do.
\<close>

theorem handlers_atomic_but_not_exclusive:
  assumes "MODEL_FALLBACK_MODE cfg \<notin> {''local'', ''api'', ''off''}"
  shows
   "(\<exists>obs. observed (snd (run_schedule (worker_step cfg env tgts te texts slices mc) sched g)) =
             observed g @ obs \<and>
       (API_FAILURES (globals (snd (run_schedule (worker_step cfg env tgts te texts slices mc) sched g))),
        length (filter (\<lambda>ob. ob = FallbackNotice) obs)) =
         fold (count_outcome (API_MAX_FAILURES cfg)) obs (API_FAILURES (globals g), 0)) \<and>
    (j \<le> n \<longrightarrow>
       fold load_step [0..<j] (\<lparr>LOCAL_ST_MODEL = None, constructions = 0\<rparr>, replicate n Called) =
         (\<lparr>LOCAL_ST_MODEL = None, constructions = j\<rparr>,
          map Constructing [1..<Suc j] @ replicate (n - j) Called)) \<and>
    (LOCAL_ST_MODEL (fst st) \<noteq> None \<longrightarrow>
       constructions (fst (fold load_step callers st)) = constructions (fst st) \<and>
       LOCAL_ST_MODEL (fst (fold load_step callers st)) \<noteq> None)"
  using run_schedule_counts [OF assms, of env tgts te texts slices mc sched g]
    load_step_first_callers [of j n] fold_load_step_loaded [of st callers]
  by blast

theorem handlers_atomic_but_not_exclusive_witness:
  "MODEL_FALLBACK_MODE trip_cfg \<notin> {''local'', ''api'', ''off''} \<and>
   (\<exists>obs. observed (snd (run_schedule twice_step [0, 1, 0, 1] trip_start)) = observed trip_start @ obs \<and>
      (API_FAILURES (globals (snd (run_schedule twice_step [0, 1, 0, 1] trip_start))),
       length (filter (\<lambda>ob. ob = FallbackNotice) obs)) =
        fold (count_outcome (API_MAX_FAILURES trip_cfg)) obs (API_FAILURES (globals trip_start), 0)) \<and>
   (2::nat) \<le> 3 \<and>
   fold load_step [0..<2] (\<lparr>LOCAL_ST_MODEL = None, constructions = 0\<rparr>, replicate 3 Called) =
     (\<lparr>LOCAL_ST_MODEL = None, constructions = 2\<rparr>,
      map Constructing [1..<Suc 2] @ replicate (3 - 2) Called) \<and>
   LOCAL_ST_MODEL (fst (\<lparr>LOCAL_ST_MODEL = Some 1, constructions = 1\<rparr>, [Holding 1, Called, Called])) \<noteq> None \<and>
   constructions (fst (fold load_step [1, 2, 1]
       (\<lparr>LOCAL_ST_MODEL = Some 1, constructions = 1\<rparr>, [Holding 1, Called, Called]))) = 1"
proof -
  have m: "MODEL_FALLBACK_MODE trip_cfg \<notin> {''local'', ''api'', ''off''}"
    by (simp add: trip_cfg_def)
  have l: "LOCAL_ST_MODEL (fst (\<lparr>LOCAL_ST_MODEL = Some 1, constructions = 1\<rparr>, [Holding 1, Called, Called])) \<noteq> None"
    by simp
  have le: "(2::nat) \<le> 3" by simp
  note t = handlers_atomic_but_not_exclusive [OF m, where env = "picky_env ''a''"
      and tgts = "[''b'', ''c'']" and te = "[[98], [99]]" and texts = "[''a'', ''a'', ''c'']"
      and slices = "[(0, 1), (1, 2), (2, 3)]" and mc = 2 and sched = "[0, 1, 0, 1]" and g = trip_start
      and j = 2 and n = 3
      and st = "(\<lparr>LOCAL_ST_MODEL = Some 1, constructions = 1\<rparr>, [Holding 1, Called, Called])"
      and callers = "[1, 2, 1]", folded twice_step_def]
  note t1 = t [THEN conjunct1]
  note t2 = t [THEN conjunct2, THEN conjunct1, THEN mp, OF le]
  note t3 = t [THEN conjunct2, THEN conjunct2, THEN mp, OF l, THEN conjunct1]
  have c: "constructions (fst (\<lparr>LOCAL_ST_MODEL = Some 1, constructions = 1\<rparr>, [Holding 1, Called, Called])) = 1"
    by simp
  show ?thesis
    by (intro conjI m t1 le t2 l) (simp only: t3 c)
qed

end
